theory Spec2Isabelle
  imports Complex_Main
begin

section \<open>Core game types (types/game.ts)\<close>

text \<open>
  JavaScript numbers are modelled exactly: grid coordinates and scores as integers,
  pixel coordinates, speeds and weights as real numbers. The three non-finite values a
  JavaScript division can produce are kept apart in \<open>jsnum\<close>.
\<close>

datatype Direction = UP | DOWN | LEFT | RIGHT | NONE

datatype CellType = EMPTY | WALL | PELLET | POWER_PELLET | GHOST_HOUSE | TUNNEL | FRUIT

datatype GhostState = CHASE | SCATTER | FRIGHTENED | EATEN | IN_HOUSE

datatype GhostType = BLINKY | PINKY | INKY | CLYDE

text \<open>A position \<open>{x, y}\<close> is the pair \<open>(x, y)\<close>; a velocity \<open>{dx, dy}\<close> the pair \<open>(dx, dy)\<close>.\<close>

type_synonym 'a Position = "'a \<times> 'a"

type_synonym Velocity = "real \<times> real"

datatype jsnum = Num real | PosInf | NegInf | NaN

section \<open>Configuration (config/gameConfig.ts)\<close>

definition MAZE_WIDTH :: int where "MAZE_WIDTH = 19"
definition MAZE_HEIGHT :: int where "MAZE_HEIGHT = 21"
definition CELL_SIZE :: real where "CELL_SIZE = 24"
definition PACMAN_SPEED :: real where "PACMAN_SPEED = 2"
definition GHOST_SPEED :: real where "GHOST_SPEED = 18 / 10"
definition POWER_PELLET_DURATION :: int where "POWER_PELLET_DURATION = 360"
definition GHOST_FLASH_DURATION :: int where "GHOST_FLASH_DURATION = 120"
definition POINTS_PELLET :: int where "POINTS_PELLET = 10"
definition POINTS_POWER_PELLET :: int where "POINTS_POWER_PELLET = 50"
definition POINTS_GHOST_BASE :: int where "POINTS_GHOST_BASE = 200"
definition POINTS_FRUIT :: "int list" where
  "POINTS_FRUIT = [100, 300, 500, 700, 1000, 2000, 3000, 5000]"
definition AI_PREDICTION_STEPS :: nat where "AI_PREDICTION_STEPS = 5"
definition AI_PATTERN_MEMORY :: nat where "AI_PATTERN_MEMORY = 20"

text \<open>\<open>AI_CONFIG\<close>\<close>

definition DANGER_RADIUS :: real where "DANGER_RADIUS = 3"
definition SAFE_DISTANCE :: real where "SAFE_DISTANCE = 5"
definition PREDICTION_WEIGHT :: real where "PREDICTION_WEIGHT = 7 / 10"
definition PATTERN_THRESHOLD :: real where "PATTERN_THRESHOLD = 6 / 10"
definition LEARNING_RATE :: real where "LEARNING_RATE = 1 / 10"
definition MAX_LEARNING_LEVEL :: real where "MAX_LEARNING_LEVEL = 100"

section \<open>The pattern learner (engine/AIEngine.ts)\<close>

record AIEngine =
  playerPatterns :: "Direction list"
  patternWeights :: "Direction \<Rightarrow> jsnum"
  learningLevel :: real

text \<open>The field initialisers of the class.\<close>

definition newAIEngine :: AIEngine where
  "newAIEngine = \<lparr> playerPatterns = [], patternWeights = (\<lambda>_. Num 0), learningLevel = 0 \<rparr>"

text \<open>The keys of \<open>patternWeights\<close> in the order \<open>Object.keys\<close> and \<open>Object.values\<close> list them.\<close>

definition weightKeys :: "Direction list" where
  "weightKeys = [UP, DOWN, LEFT, RIGHT, NONE]"

text \<open>\<open>w++\<close> and \<open>w / total\<close> on JavaScript numbers; \<open>0 / 0\<close> is \<open>NaN\<close>.\<close>

fun js_incr :: "jsnum \<Rightarrow> jsnum" where
  "js_incr (Num q) = Num (q + 1)"
| "js_incr v = v"

fun js_div :: "jsnum \<Rightarrow> real \<Rightarrow> jsnum" where
  "js_div (Num a) b =
     (if b \<noteq> 0 then Num (a / b)
      else if a = 0 then NaN
      else if 0 < a then PosInf else NegInf)"
| "js_div PosInf b = (if 0 \<le> b then PosInf else NegInf)"
| "js_div NegInf b = (if 0 \<le> b then NegInf else PosInf)"
| "js_div NaN b = NaN"

fun js_less :: "jsnum \<Rightarrow> jsnum \<Rightarrow> bool" where
  "js_less NaN _ = False"
| "js_less _ NaN = False"
| "js_less (Num a) (Num b) = (a < b)"
| "js_less (Num a) PosInf = True"
| "js_less NegInf (Num b) = True"
| "js_less NegInf PosInf = True"
| "js_less _ _ = False"

text \<open>\<open>Math.max(...vs)\<close>: \<open>-Infinity\<close> for no argument, \<open>NaN\<close> as soon as one argument is.\<close>

fun js_max2 :: "jsnum \<Rightarrow> jsnum \<Rightarrow> jsnum" where
  "js_max2 NaN _ = NaN"
| "js_max2 _ NaN = NaN"
| "js_max2 a b = (if js_less a b then b else a)"

definition Math_max :: "jsnum list \<Rightarrow> jsnum" where
  "Math_max vs = foldl js_max2 NegInf vs"

fun js_minus :: "jsnum \<Rightarrow> real \<Rightarrow> jsnum" where
  "js_minus (Num a) b = Num (a - b)"
| "js_minus v b = v"

definition updatePatternWeights :: "AIEngine \<Rightarrow> AIEngine" where
  "updatePatternWeights e =
     (let reset = (\<lambda>_. Num 0);
          counted = foldl (\<lambda>w direction. w(direction := js_incr (w direction))) reset (playerPatterns e);
          total = real (length (playerPatterns e))
      in e\<lparr>patternWeights := (\<lambda>key. js_div (counted key) total)\<rparr>)"

text \<open>
  \<open>learningLevel\<close> stays finite: \<open>Math.min(learningLevel + Infinity, MAX_LEARNING_LEVEL)\<close>
  is \<open>MAX_LEARNING_LEVEL\<close>, and a comparison with \<open>NaN\<close> is false.
\<close>

definition updateLearningLevel :: "AIEngine \<Rightarrow> AIEngine" where
  "updateLearningLevel e =
     (let maxWeight = Math_max (map (patternWeights e) weightKeys);
          consistency = js_minus maxWeight (25 / 100)
      in if js_less (Num 0) consistency
         then (case consistency of
                 Num c \<Rightarrow> e\<lparr>learningLevel := min (learningLevel e + c * LEARNING_RATE) MAX_LEARNING_LEVEL\<rparr>
               | _ \<Rightarrow> e\<lparr>learningLevel := MAX_LEARNING_LEVEL\<rparr>)
         else e)"

definition recordPlayerMovement :: "Direction \<Rightarrow> AIEngine \<Rightarrow> AIEngine" where
  "recordPlayerMovement direction e =
     (let pushed = playerPatterns e @ [direction];
          kept = (if real (length pushed) > PATTERN_THRESHOLD then tl pushed else pushed)
      in updateLearningLevel (updatePatternWeights (e\<lparr>playerPatterns := kept\<rparr>)))"

section \<open>Entities (types/game.ts)\<close>

record Entity =
  position :: "real Position"
  velocity :: Velocity
  direction :: Direction

record Ghost = Entity +
  ghostId :: GhostType
  state :: GhostState
  color :: string
  targetPosition :: "real Position"
  scatterTarget :: "real Position"
  houseTimer :: int
  frightenedTimer :: int
  isFlashing :: bool
  lastDirection :: Direction
  pathPrediction :: "real Position list"

record PacMan = Entity +
  nextDirection :: Direction
  animationFrame :: int
  isDead :: bool
  mouthOpen :: bool

section \<open>Geometry helpers shared by AIEngine.ts and GameEngine.ts\<close>

text \<open>
  \<open>getNextPosition\<close> and \<open>manhattanDistance\<close> are written twice in the source, with the
  same body in both classes; they are used on grid cells (integers) and on pixel positions.
\<close>

fun getNextPosition :: "('a::ring_1) Position \<Rightarrow> Direction \<Rightarrow> 'a Position" where
  "getNextPosition (x, y) UP = (x, y - 1)"
| "getNextPosition (x, y) DOWN = (x, y + 1)"
| "getNextPosition (x, y) LEFT = (x - 1, y)"
| "getNextPosition (x, y) RIGHT = (x + 1, y)"
| "getNextPosition (x, y) NONE = (x, y)"

definition manhattanDistance :: "('a::linordered_idom) Position \<Rightarrow> 'a Position \<Rightarrow> 'a" where
  "manhattanDistance pos1 pos2 = \<bar>fst pos1 - fst pos2\<bar> + \<bar>snd pos1 - snd pos2\<bar>"

text \<open>\<open>Math.round\<close>: the nearest integer, a half rounded up.\<close>

definition Math_round :: "real \<Rightarrow> int" where
  "Math_round v = \<lfloor>v + 1 / 2\<rfloor>"

text \<open>
  \<open>maze[y][x]\<close>: a read outside the row gives \<open>undefined\<close> in JavaScript, which is
  no cell type at all.
\<close>

definition cellAt :: "CellType list list \<Rightarrow> nat \<Rightarrow> nat \<Rightarrow> CellType option" where
  "cellAt maze y x = (if y < length maze \<and> x < length (maze ! y) then Some (maze ! y ! x) else None)"

section \<open>Danger field (engine/AIEngine.ts)\<close>

text \<open>The body of the \<open>forEach\<close> callback of \<open>calculateDangerLevel\<close>, on the running total.\<close>

definition addDanger :: "real Position \<Rightarrow> real \<Rightarrow> Ghost \<Rightarrow> real" where
  "addDanger pos totalDanger ghost =
     (if state ghost = FRIGHTENED \<or> state ghost = EATEN then totalDanger
      else let distance = manhattanDistance pos (position ghost);
               maxDangerDistance = DANGER_RADIUS
           in if distance \<le> maxDangerDistance
              then totalDanger + (maxDangerDistance - distance) / maxDangerDistance
              else totalDanger)"

definition calculateDangerLevel :: "real Position \<Rightarrow> Ghost list \<Rightarrow> real" where
  "calculateDangerLevel pos ghosts = min (foldl (addDanger pos) 0 ghosts) 1"

text \<open>
  The two nested loops write every cell of the heatmap once; the heatmap has
  \<open>maze.length\<close> rows of \<open>maze[0].length\<close> cells.
\<close>

definition generateDangerHeatmap :: "Ghost list \<Rightarrow> CellType list list \<Rightarrow> real list list" where
  "generateDangerHeatmap ghosts maze =
     (case maze of
        [] \<Rightarrow> []
      | row0 # _ \<Rightarrow>
          map (\<lambda>y. map (\<lambda>x. if cellAt maze y x = Some WALL then - 1
                              else calculateDangerLevel (real x, real y) ghosts)
                        [0 ..< length row0])
              [0 ..< length maze])"

section \<open>Maze layout and spawn configuration (config/gameConfig.ts)\<close>

definition MAZE_LAYOUT :: "CellType list list" where
  "MAZE_LAYOUT = [
    [WALL, WALL, WALL, WALL, WALL, WALL, WALL, WALL, WALL, WALL, WALL, WALL, WALL, WALL, WALL, WALL, WALL, WALL, WALL],
    [WALL, PELLET, PELLET, PELLET, PELLET, PELLET, PELLET, PELLET, PELLET, WALL, PELLET, PELLET, PELLET, PELLET, PELLET, PELLET, PELLET, PELLET, WALL],
    [WALL, POWER_PELLET, WALL, WALL, WALL, PELLET, WALL, WALL, WALL, WALL, WALL, WALL, WALL, PELLET, WALL, WALL, WALL, POWER_PELLET, WALL],
    [WALL, PELLET, PELLET, PELLET, PELLET, PELLET, PELLET, PELLET, PELLET, PELLET, PELLET, PELLET, PELLET, PELLET, PELLET, PELLET, PELLET, PELLET, WALL],
    [WALL, PELLET, WALL, WALL, WALL, PELLET, WALL, PELLET, WALL, WALL, WALL, PELLET, WALL, PELLET, WALL, WALL, WALL, PELLET, WALL],
    [WALL, PELLET, PELLET, PELLET, PELLET, PELLET, WALL, PELLET, PELLET, WALL, PELLET, PELLET, WALL, PELLET, PELLET, PELLET, PELLET, PELLET, WALL],
    [WALL, WALL, WALL, WALL, WALL, PELLET, WALL, WALL, EMPTY, WALL, EMPTY, WALL, WALL, PELLET, WALL, WALL, WALL, WALL, WALL],
    [EMPTY, EMPTY, EMPTY, EMPTY, WALL, PELLET, WALL, EMPTY, EMPTY, EMPTY, EMPTY, EMPTY, WALL, PELLET, WALL, EMPTY, EMPTY, EMPTY, EMPTY],
    [WALL, WALL, WALL, WALL, WALL, PELLET, WALL, EMPTY, GHOST_HOUSE, GHOST_HOUSE, GHOST_HOUSE, EMPTY, WALL, PELLET, WALL, WALL, WALL, WALL, WALL],
    [TUNNEL, EMPTY, EMPTY, EMPTY, EMPTY, PELLET, EMPTY, EMPTY, GHOST_HOUSE, GHOST_HOUSE, GHOST_HOUSE, EMPTY, EMPTY, PELLET, EMPTY, EMPTY, EMPTY, EMPTY, TUNNEL],
    [WALL, WALL, WALL, WALL, WALL, PELLET, WALL, EMPTY, GHOST_HOUSE, GHOST_HOUSE, GHOST_HOUSE, EMPTY, WALL, PELLET, WALL, WALL, WALL, WALL, WALL],
    [EMPTY, EMPTY, EMPTY, EMPTY, WALL, PELLET, WALL, EMPTY, EMPTY, EMPTY, EMPTY, EMPTY, WALL, PELLET, WALL, EMPTY, EMPTY, EMPTY, EMPTY],
    [WALL, WALL, WALL, WALL, WALL, PELLET, WALL, WALL, EMPTY, WALL, EMPTY, WALL, WALL, PELLET, WALL, WALL, WALL, WALL, WALL],
    [WALL, PELLET, PELLET, PELLET, PELLET, PELLET, PELLET, PELLET, PELLET, WALL, PELLET, PELLET, PELLET, PELLET, PELLET, PELLET, PELLET, PELLET, WALL],
    [WALL, PELLET, WALL, WALL, WALL, PELLET, WALL, WALL, WALL, WALL, WALL, WALL, WALL, PELLET, WALL, WALL, WALL, PELLET, WALL],
    [WALL, POWER_PELLET, PELLET, PELLET, WALL, PELLET, PELLET, PELLET, PELLET, PELLET, PELLET, PELLET, PELLET, PELLET, WALL, PELLET, PELLET, POWER_PELLET, WALL],
    [WALL, WALL, WALL, PELLET, WALL, PELLET, WALL, PELLET, WALL, WALL, WALL, PELLET, WALL, PELLET, WALL, PELLET, WALL, WALL, WALL],
    [WALL, PELLET, PELLET, PELLET, PELLET, PELLET, WALL, PELLET, PELLET, WALL, PELLET, PELLET, WALL, PELLET, PELLET, PELLET, PELLET, PELLET, WALL],
    [WALL, PELLET, WALL, WALL, WALL, WALL, WALL, WALL, PELLET, WALL, PELLET, WALL, WALL, WALL, WALL, WALL, WALL, PELLET, WALL],
    [WALL, PELLET, PELLET, PELLET, PELLET, PELLET, PELLET, PELLET, PELLET, PELLET, PELLET, PELLET, PELLET, PELLET, PELLET, PELLET, PELLET, PELLET, WALL],
    [WALL, WALL, WALL, WALL, WALL, WALL, WALL, WALL, WALL, WALL, WALL, WALL, WALL, WALL, WALL, WALL, WALL, WALL, WALL]
  ]"

text \<open>\<open>GHOST_CONFIG\<close>, in the order of its keys.\<close>

definition GHOST_CONFIG_keys :: "GhostType list" where
  "GHOST_CONFIG_keys = [BLINKY, PINKY, INKY, CLYDE]"

fun startPosition :: "GhostType \<Rightarrow> real Position" where
  "startPosition BLINKY = (9, 9)"
| "startPosition PINKY = (9, 10)"
| "startPosition INKY = (8, 10)"
| "startPosition CLYDE = (10, 10)"

fun configScatterTarget :: "GhostType \<Rightarrow> real Position" where
  "configScatterTarget BLINKY = (17, 0)"
| "configScatterTarget PINKY = (2, 0)"
| "configScatterTarget INKY = (17, 20)"
| "configScatterTarget CLYDE = (0, 20)"

fun configColor :: "GhostType \<Rightarrow> string" where
  "configColor BLINKY = ''#ff0000''"
| "configColor PINKY = ''#ffb8ff''"
| "configColor INKY = ''#00ffff''"
| "configColor CLYDE = ''#ffb852''"

definition PACMAN_START_POSITION :: "real Position" where
  "PACMAN_START_POSITION = (9, 15)"

section \<open>Ghost targeting (engine/AIEngine.ts)\<close>

text \<open>\<open>AIEngine.getPositionAhead\<close> (the copy in GameEngine.ts, which clamps, is never called).\<close>

fun getPositionAhead :: "real Position \<Rightarrow> Direction \<Rightarrow> real \<Rightarrow> real Position" where
  "getPositionAhead (x, y) UP distance = (x, y - distance)"
| "getPositionAhead (x, y) DOWN distance = (x, y + distance)"
| "getPositionAhead (x, y) LEFT distance = (x - distance, y)"
| "getPositionAhead (x, y) RIGHT distance = (x + distance, y)"
| "getPositionAhead (x, y) NONE distance = (x, y)"

text \<open>The \<open>switch\<close> is on \<open>ghost.id\<close> alone; \<open>ghost.state\<close> is not read.\<close>

definition getGhostTarget :: "Ghost \<Rightarrow> PacMan \<Rightarrow> Ghost list \<Rightarrow> real Position" where
  "getGhostTarget ghost pacman ghosts =
     (case ghostId ghost of
        BLINKY \<Rightarrow> position pacman
      | PINKY \<Rightarrow> getPositionAhead (position pacman) (direction pacman) 4
      | INKY \<Rightarrow>
          (case find (\<lambda>g. ghostId g = BLINKY) ghosts of
             Some blinky \<Rightarrow>
               (let ahead = getPositionAhead (position pacman) (direction pacman) 2
                in (fst ahead + (fst ahead - fst (position blinky)),
                    snd ahead + (snd ahead - snd (position blinky))))
           | None \<Rightarrow> position pacman)
      | CLYDE \<Rightarrow>
          (let distance = manhattanDistance (position ghost) (position pacman)
           in if distance > 8 then position pacman else scatterTarget ghost))"

text \<open>The \<open>forEach\<close> over \<open>Object.entries(weights)\<close>, on \<open>(maxWeight, predictedDirection)\<close>.\<close>

definition predictPlayerDirection :: "AIEngine \<Rightarrow> Direction" where
  "predictPlayerDirection e =
     snd (foldl (\<lambda>(maxWeight, predictedDirection) dir.
                   if js_less maxWeight (patternWeights e dir)
                   then (patternWeights e dir, dir)
                   else (maxWeight, predictedDirection))
                (Num 0, NONE) weightKeys)"

definition calculateInterceptPoint :: "real Position \<Rightarrow> real Position \<Rightarrow> Velocity \<Rightarrow> real Position" where
  "calculateInterceptPoint ghostPos targetPos targetVelocity =
     (let dx = fst targetPos - fst ghostPos;
          dy = snd targetPos - snd ghostPos;
          distance = sqrt (dx * dx + dy * dy);
          timeToReach = distance / GHOST_SPEED
      in (real_of_int (Math_round (fst targetPos + fst targetVelocity * timeToReach)),
          real_of_int (Math_round (snd targetPos + snd targetVelocity * timeToReach))))"

definition adaptGhostBehavior :: "AIEngine \<Rightarrow> Ghost \<Rightarrow> PacMan \<Rightarrow> Ghost list \<Rightarrow> real Position" where
  "adaptGhostBehavior e ghost pacman ghosts =
     (let baseTarget = getGhostTarget ghost pacman ghosts
      in if learningLevel e < 20 then baseTarget
         else
           let predictedDirection = predictPlayerDirection e;
               predictedPosition = getNextPosition (position pacman) predictedDirection;
               interceptTarget = calculateInterceptPoint (position ghost) predictedPosition (velocity pacman);
               learningWeight = min (learningLevel e / 100) (7 / 10)
           in (real_of_int (Math_round (fst baseTarget * (1 - learningWeight) + fst interceptTarget * learningWeight)),
               real_of_int (Math_round (snd baseTarget * (1 - learningWeight) + snd interceptTarget * learningWeight))))"

section \<open>Game state and engine (types/game.ts, engine/GameEngine.ts)\<close>

datatype GameStatus = READY | PLAYING | PAUSED | GAME_OVER | LEVEL_COMPLETE

text \<open>\<open>gs_playerPatterns\<close> is the field \<open>playerPatterns\<close> of the game state.\<close>

record GameState =
  pacman :: PacMan
  ghosts :: "Ghost list"
  maze :: "CellType list list"
  score :: int
  highScore :: int
  lives :: int
  level :: int
  pelletsRemaining :: int
  powerPelletActive :: bool
  powerPelletTimer :: int
  gameStatus :: GameStatus
  ghostEatenCount :: nat
  fruitSpawned :: bool
  fruitPosition :: "int Position option"
  fruitScore :: int
  aiLearningLevel :: real
  showAIFeatures :: bool
  dangerMap :: "real list list"
  gs_playerPatterns :: "Direction list"
  screenShake :: bool
  vhsGlitch :: bool

text \<open>
  A callback handed to \<open>setTimeout\<close> is kept, with its delay in milliseconds, in
  \<open>timers\<close>; the model does not run it.
\<close>

datatype TimerCallback = ResetPositions

record GameEngine =
  aiEngine :: AIEngine
  gameState :: GameState
  lastUpdateTime :: real
  frameCount :: nat
  difficultyMultiplier :: real
  timers :: "(nat \<times> TimerCallback) list"

definition countPellets :: "CellType list list \<Rightarrow> int" where
  "countPellets m = int (length (filter (\<lambda>cell. cell = PELLET \<or> cell = POWER_PELLET) (concat m)))"

definition createPacMan :: PacMan where
  "createPacMan =
     \<lparr> position = (fst PACMAN_START_POSITION * CELL_SIZE, snd PACMAN_START_POSITION * CELL_SIZE),
       velocity = (0, 0),
       direction = NONE,
       nextDirection = NONE,
       animationFrame = 0,
       isDead = False,
       mouthOpen = True \<rparr>"

definition createGhost :: "nat \<Rightarrow> GhostType \<Rightarrow> Ghost" where
  "createGhost index type =
     \<lparr> position = (fst (startPosition type) * CELL_SIZE, snd (startPosition type) * CELL_SIZE),
       velocity = (0, 0),
       direction = UP,
       ghostId = type,
       state = (if type = BLINKY then CHASE else IN_HOUSE),
       color = configColor type,
       targetPosition = (fst (configScatterTarget type) * CELL_SIZE, snd (configScatterTarget type) * CELL_SIZE),
       scatterTarget = (fst (configScatterTarget type) * CELL_SIZE, snd (configScatterTarget type) * CELL_SIZE),
       houseTimer = (if type = BLINKY then 0 else 60 + int index * 30),
       frightenedTimer = 0,
       isFlashing = False,
       lastDirection = UP,
       pathPrediction = [] \<rparr>"

definition createGhosts :: "Ghost list" where
  "createGhosts = map (\<lambda>(index, type). createGhost index type) (enumerate 0 GHOST_CONFIG_keys)"

text \<open>\<open>storedHighScore\<close> is what \<open>localStorage\<close> holds under \<open>pacman_highscore\<close>.\<close>

definition initializeGameState :: "int \<Rightarrow> GameState" where
  "initializeGameState storedHighScore =
     \<lparr> pacman = createPacMan,
       ghosts = createGhosts,
       maze = MAZE_LAYOUT,
       score = 0,
       highScore = storedHighScore,
       lives = 3,
       level = 1,
       pelletsRemaining = countPellets MAZE_LAYOUT,
       powerPelletActive = False,
       powerPelletTimer = 0,
       gameStatus = READY,
       ghostEatenCount = 0,
       fruitSpawned = False,
       fruitPosition = None,
       fruitScore = 0,
       aiLearningLevel = 0,
       showAIFeatures = True,
       dangerMap = [],
       gs_playerPatterns = [],
       screenShake = False,
       vhsGlitch = False \<rparr>"

text \<open>The constructor and the field initialisers of \<open>GameEngine\<close>.\<close>

definition newGameEngine :: "int \<Rightarrow> GameEngine" where
  "newGameEngine storedHighScore =
     \<lparr> aiEngine = newAIEngine,
       gameState = initializeGameState storedHighScore,
       lastUpdateTime = 0,
       frameCount = 0,
       difficultyMultiplier = 1,
       timers = [] \<rparr>"

text \<open>\<open>restartGame\<close> replaces the game state only; \<open>this.aiEngine\<close> is the same object.\<close>

definition restartGame :: "int \<Rightarrow> GameEngine \<Rightarrow> GameEngine" where
  "restartGame storedHighScore eng = eng\<lparr>gameState := initializeGameState storedHighScore\<rparr>"

section \<open>Movement (engine/GameEngine.ts)\<close>

fun getOppositeDirection :: "Direction \<Rightarrow> Direction" where
  "getOppositeDirection UP = DOWN"
| "getOppositeDirection DOWN = UP"
| "getOppositeDirection LEFT = RIGHT"
| "getOppositeDirection RIGHT = LEFT"
| "getOppositeDirection NONE = NONE"

text \<open>
  \<open>isValidMove\<close> checks the position against the configured size and reads
  \<open>this.gameState.maze\<close>, which is a copy of the layout with pellets eaten.
\<close>

definition isValidMove :: "CellType list list \<Rightarrow> int Position \<Rightarrow> bool" where
  "isValidMove m pos =
     (if snd pos < 0 \<or> snd pos \<ge> MAZE_HEIGHT then False
      else if fst pos < 0 \<or> fst pos \<ge> MAZE_WIDTH then False
      else cellAt m (nat (snd pos)) (nat (fst pos)) \<noteq> Some WALL)"


fun speedVelocity :: "real \<Rightarrow> Direction \<Rightarrow> Velocity" where
  "speedVelocity speed UP = (0, - speed)"
| "speedVelocity speed DOWN = (0, speed)"
| "speedVelocity speed LEFT = (- speed, 0)"
| "speedVelocity speed RIGHT = (speed, 0)"
| "speedVelocity speed NONE = (0, 0)"

definition setVelocity :: "PacMan \<Rightarrow> Direction \<Rightarrow> PacMan" where
  "setVelocity entity dir = entity\<lparr>velocity := speedVelocity PACMAN_SPEED dir\<rparr>"


text \<open>The \<open>// Handle tunnel wraparound\<close> step, the same in \<open>updatePacMan\<close> and \<open>updateGhostMovement\<close>.\<close>

definition wrapTunnel :: "real \<Rightarrow> real" where
  "wrapTunnel nextX =
     (if nextX < 0 then (real_of_int MAZE_WIDTH - 1) * CELL_SIZE
      else if nextX \<ge> real_of_int MAZE_WIDTH * CELL_SIZE then 0
      else nextX)"

definition toGrid :: "real Position \<Rightarrow> int Position" where
  "toGrid pos = (Math_round (fst pos / CELL_SIZE), Math_round (snd pos / CELL_SIZE))"

subsection \<open>\<open>updatePacMan\<close>\<close>

text \<open>\<open>// Try to change direction if possible\<close>\<close>

definition tryChangeDirection :: "CellType list list \<Rightarrow> PacMan \<Rightarrow> PacMan" where
  "tryChangeDirection m pac =
     (if nextDirection pac \<noteq> direction pac \<and> nextDirection pac \<noteq> NONE
      then let nextGridPos = getNextPosition (toGrid (position pac)) (nextDirection pac)
           in if isValidMove m nextGridPos
              then setVelocity (pac\<lparr>direction := nextDirection pac\<rparr>) (nextDirection pac)
              else pac
      else pac)"

text \<open>\<open>// Move Pac-Man\<close>\<close>

definition movePacMan :: "CellType list list \<Rightarrow> PacMan \<Rightarrow> PacMan" where
  "movePacMan m pac =
     (if direction pac \<noteq> NONE
      then let nextX = wrapTunnel (fst (position pac) + fst (velocity pac));
               nextY = snd (position pac) + snd (velocity pac)
           in if isValidMove m (toGrid (nextX, nextY))
              then pac\<lparr>position := (nextX, nextY)\<rparr>
              else pac\<lparr>direction := NONE, velocity := (0, 0)\<rparr>
      else pac)"

text \<open>\<open>// Update animation\<close>\<close>

definition animatePacMan :: "nat \<Rightarrow> PacMan \<Rightarrow> PacMan" where
  "animatePacMan frame pac =
     (if frame mod 8 = 0
      then pac\<lparr>mouthOpen := \<not> mouthOpen pac, animationFrame := (animationFrame pac + 1) mod 4\<rparr>
      else pac)"

definition updatePacMan :: "Direction \<Rightarrow> GameEngine \<Rightarrow> GameEngine" where
  "updatePacMan inputDirection eng =
     (let gs = gameState eng;
          pac0 = pacman gs;
          pac1 = (if inputDirection \<noteq> NONE then pac0\<lparr>nextDirection := inputDirection\<rparr> else pac0);
          ai = (if inputDirection \<noteq> NONE then recordPlayerMovement inputDirection (aiEngine eng)
                else aiEngine eng);
          pac2 = tryChangeDirection (maze gs) pac1;
          pac3 = movePacMan (maze gs) pac2;
          pac4 = animatePacMan (frameCount eng) pac3
      in eng\<lparr>aiEngine := ai, gameState := gs\<lparr>pacman := pac4\<rparr>\<rparr>)"

subsection \<open>\<open>updateGhostState\<close>\<close>

text \<open>
  The ghost is an element of \<open>this.gameState.ghosts\<close> and is changed in place; the
  function returns the changed ghost. Where \<open>getGhostTarget\<close> returns
  \<open>pacman.position\<close>, the source stores that very object in \<open>ghost.targetPosition\<close>;
  the model stores its value, which is what the object holds when the target is read in
  the same tick.
\<close>

definition updateGhostState :: "GameEngine \<Rightarrow> Ghost \<Rightarrow> Ghost" where
  "updateGhostState eng ghost =
     (if state ghost = IN_HOUSE \<and> houseTimer ghost > 0
      then let g1 = ghost\<lparr>houseTimer := houseTimer ghost - 1\<rparr>
           in if houseTimer g1 \<le> 0 then g1\<lparr>state := CHASE\<rparr> else g1
      else if state ghost = FRIGHTENED
      then let g1 = ghost\<lparr>frightenedTimer := frightenedTimer ghost - 1\<rparr>;
               g2 = (if frightenedTimer g1 \<le> GHOST_FLASH_DURATION
                     then g1\<lparr>isFlashing := ((frightenedTimer g1 div 10) mod 2 = 0)\<rparr>
                     else g1)
           in if frightenedTimer g2 \<le> 0 then g2\<lparr>state := CHASE, isFlashing := False\<rparr> else g2
      else if state ghost = EATEN
      then let housePos = startPosition (ghostId ghost);
               g1 = (if position ghost = housePos then ghost\<lparr>state := CHASE\<rparr> else ghost)
           in g1\<lparr>targetPosition := housePos\<rparr>
      else let g1 = ghost\<lparr>targetPosition :=
                      adaptGhostBehavior (aiEngine eng) ghost (pacman (gameState eng)) (ghosts (gameState eng))\<rparr>;
               modeTime = frameCount eng div 600
           in g1\<lparr>state := (if modeTime mod 2 = 0 then CHASE else SCATTER)\<rparr>)"

subsection \<open>\<open>updateGhostMovement\<close>\<close>



section \<open>Collisions and power pellets (engine/GameEngine.ts)\<close>

text \<open>\<open>playSound\<close> only writes to the console and is left out.\<close>

definition activatePowerPellet :: "GameEngine \<Rightarrow> GameEngine" where
  "activatePowerPellet eng =
     (let gs = gameState eng
      in eng\<lparr>gameState := gs\<lparr>
           powerPelletActive := True,
           powerPelletTimer := POWER_PELLET_DURATION,
           ghostEatenCount := 0,
           ghosts := map (\<lambda>ghost.
                       if state ghost \<noteq> EATEN \<and> state ghost \<noteq> IN_HOUSE
                       then ghost\<lparr>state := FRIGHTENED,
                                  frightenedTimer := POWER_PELLET_DURATION,
                                  isFlashing := False,
                                  direction := getOppositeDirection (direction ghost)\<rparr>
                       else ghost) (ghosts gs)\<rparr>\<rparr>)"

text \<open>
  The callback of \<open>// Check ghost collisions\<close> for the ghost at index \<open>i\<close>;
  \<open>(gridX, gridY)\<close> is Pac-Man's cell.
\<close>

definition collideGhost :: "int \<Rightarrow> int \<Rightarrow> GameEngine \<Rightarrow> nat \<Rightarrow> GameEngine" where
  "collideGhost gridX gridY eng i =
     (let gs = gameState eng;
          ghost = ghosts gs ! i;
          ghostGridX = Math_round (fst (position ghost) / CELL_SIZE);
          ghostGridY = Math_round (snd (position ghost) / CELL_SIZE);
          distance = \<bar>gridX - ghostGridX\<bar> + \<bar>gridY - ghostGridY\<bar>
      in if distance < 1
         then if state ghost = FRIGHTENED
              then let points = POINTS_GHOST_BASE * 2 ^ ghostEatenCount gs
                   in eng\<lparr>gameState := gs\<lparr>
                        ghosts := (ghosts gs)[i := ghost\<lparr>state := EATEN\<rparr>],
                        score := score gs + points,
                        ghostEatenCount := ghostEatenCount gs + 1,
                        screenShake := True\<rparr>\<rparr>
              else if state ghost \<noteq> EATEN
              then let gs1 = gs\<lparr>pacman := (pacman gs)\<lparr>isDead := True\<rparr>,
                               lives := lives gs - 1,
                               screenShake := True\<rparr>
                   in if lives gs1 \<le> 0
                      then eng\<lparr>gameState := gs1\<lparr>gameStatus := GAME_OVER\<rparr>\<rparr>
                      else eng\<lparr>gameState := gs1, timers := timers eng @ [(2000, ResetPositions)]\<rparr>
              else eng
         else eng)"

definition collectPellet :: "int \<Rightarrow> int \<Rightarrow> GameEngine \<Rightarrow> GameEngine" where
  "collectPellet gridX gridY eng =
     (let gs = gameState eng
      in eng\<lparr>gameState := gs\<lparr>
           maze := (maze gs)[nat gridY := (maze gs ! nat gridY)[nat gridX := EMPTY]],
           score := score gs + POINTS_PELLET,
           pelletsRemaining := pelletsRemaining gs - 1\<rparr>\<rparr>)"

definition collectPowerPellet :: "int \<Rightarrow> int \<Rightarrow> GameEngine \<Rightarrow> GameEngine" where
  "collectPowerPellet gridX gridY eng =
     (let gs = gameState eng
      in activatePowerPellet (eng\<lparr>gameState := gs\<lparr>
           maze := (maze gs)[nat gridY := (maze gs ! nat gridY)[nat gridX := EMPTY]],
           score := score gs + POINTS_POWER_PELLET,
           pelletsRemaining := pelletsRemaining gs - 1\<rparr>\<rparr>))"

definition collectFruit :: "int \<Rightarrow> int \<Rightarrow> GameEngine \<Rightarrow> GameEngine" where
  "collectFruit gridX gridY eng =
     (let gs = gameState eng
      in if fruitPosition gs = Some (gridX, gridY)
         then let fruitPoints = POINTS_FRUIT ! nat (min (level gs - 1) 7)
              in eng\<lparr>gameState := gs\<lparr>
                   score := score gs + fruitPoints,
                   fruitScore := fruitPoints,
                   fruitPosition := None,
                   fruitSpawned := False\<rparr>\<rparr>
         else eng)"

definition checkCollisions :: "GameEngine \<Rightarrow> GameEngine" where
  "checkCollisions eng =
     (let pacmanPos = position (pacman (gameState eng));
          gridX = Math_round (fst pacmanPos / CELL_SIZE);
          gridY = Math_round (snd pacmanPos / CELL_SIZE)
      in if gridX < 0 \<or> gridX \<ge> MAZE_WIDTH \<or> gridY < 0 \<or> gridY \<ge> MAZE_HEIGHT then eng
         else
           let cellType = cellAt (maze (gameState eng)) (nat gridY) (nat gridX);
               eng1 = (if cellType = Some PELLET then collectPellet gridX gridY eng else eng);
               eng2 = (if cellType = Some POWER_PELLET then collectPowerPellet gridX gridY eng1 else eng1);
               eng3 = collectFruit gridX gridY eng2
           in foldl (collideGhost gridX gridY) eng3 [0 ..< length (ghosts (gameState eng3))])"

section \<open>Pathfinder (engine/AIEngine.ts)\<close>

text \<open>
  \<open>isValidPosition\<close> checks the position against the size of the maze it is given.
\<close>

definition isValidPosition :: "int Position \<Rightarrow> CellType list list \<Rightarrow> bool" where
  "isValidPosition pos m =
     (if snd pos < 0 \<or> snd pos \<ge> int (length m) then False
      else if fst pos < 0 \<or> fst pos \<ge> int (length (m ! 0)) then False
      else cellAt m (nat (snd pos)) (nat (fst pos)) \<noteq> Some WALL)"

text \<open>
  The maps are keyed by the string \<open>`${x},${y}`\<close>, which determines the cell; the
  model keys them by the cell. \<open>map.get(key) || d\<close> is \<open>d\<close> when the key is missing
  and also when the stored number is \<open>0\<close>, which is falsy.
\<close>

datatype extnum = Fin int | Infinity

fun orInfinity :: "int option \<Rightarrow> extnum" where
  "orInfinity None = Infinity"
| "orInfinity (Some v) = (if v = 0 then Infinity else Fin v)"

fun orZero :: "int option \<Rightarrow> int" where
  "orZero None = 0"
| "orZero (Some v) = v"

fun ext_less :: "extnum \<Rightarrow> extnum \<Rightarrow> bool" where
  "ext_less (Fin a) (Fin b) = (a < b)"
| "ext_less (Fin a) Infinity = True"
| "ext_less Infinity _ = False"

record AStar =
  openSet :: "int Position list"
  cameFrom :: "int Position \<rightharpoonup> int Position"
  gScore :: "int Position \<rightharpoonup> int"
  fScore :: "int Position \<rightharpoonup> int"

text \<open>\<open>// Find node with lowest fScore\<close>: the scan over \<open>i = 1 .. openSet.length - 1\<close>.\<close>

definition lowestFScore :: "(int Position \<rightharpoonup> int) \<Rightarrow> int Position list \<Rightarrow> int Position \<times> nat" where
  "lowestFScore f os =
     foldl (\<lambda>(current, currentIndex) i.
              if ext_less (orInfinity (f (os ! i))) (orInfinity (f current))
              then (os ! i, i) else (current, currentIndex))
           (hd os, 0) [1 ..< length os]"

text \<open>\<open>openSet.splice(currentIndex, 1)\<close>\<close>

definition splice1 :: "nat \<Rightarrow> 'a list \<Rightarrow> 'a list" where
  "splice1 i xs = take i xs @ drop (Suc i) xs"

text \<open>The callback of \<open>// Check neighbors\<close> for one direction.\<close>

definition checkNeighbor :: "CellType list list \<Rightarrow> int Position \<Rightarrow> int Position \<Rightarrow> AStar \<Rightarrow> Direction \<Rightarrow> AStar" where
  "checkNeighbor m goal current st dir =
     (let neighbor = getNextPosition current dir
      in if \<not> isValidPosition neighbor m then st
         else
           let tentativeGScore = orZero (gScore st current) + 1
           in if ext_less (Fin tentativeGScore) (orInfinity (gScore st neighbor))
              then let st1 = st\<lparr>cameFrom := (cameFrom st)(neighbor \<mapsto> current),
                                gScore := (gScore st)(neighbor \<mapsto> tentativeGScore),
                                fScore := (fScore st)(neighbor \<mapsto> tentativeGScore + manhattanDistance neighbor goal)\<rparr>
                   in if neighbor \<notin> set (openSet st1)
                      then st1\<lparr>openSet := openSet st1 @ [neighbor]\<rparr>
                      else st1
              else st)"

text \<open>
  \<open>// Reconstruct path\<close>: the loop \<open>while (cameFrom.has(currentKey))\<close>, which need not
  end; \<open>None\<close> is the run that never returns.
\<close>

partial_function (option) reconstructPath ::
  "(int Position \<rightharpoonup> int Position) \<Rightarrow> int Position \<Rightarrow> int Position list \<Rightarrow> int Position list option" where
  [code]: "reconstructPath cf currentKey path =
     (case cf currentKey of
        None \<Rightarrow> Some path
      | Some current \<Rightarrow> reconstructPath cf current (current # path))"

text \<open>The loop \<open>while (openSet.length > 0)\<close>.\<close>

partial_function (option) searchLoop ::
  "CellType list list \<Rightarrow> int Position \<Rightarrow> AStar \<Rightarrow> int Position list option" where
  [code]: "searchLoop m goal st =
     (if length (openSet st) > 0
      then (case lowestFScore (fScore st) (openSet st) of
              (current, currentIndex) \<Rightarrow>
                if current = goal
                then reconstructPath (cameFrom st) current [current]
                else searchLoop m goal
                       (foldl (checkNeighbor m goal current)
                              (st\<lparr>openSet := splice1 currentIndex (openSet st)\<rparr>)
                              [UP, DOWN, LEFT, RIGHT]))
      else Some [])"

definition findPathAStar :: "int Position \<Rightarrow> int Position \<Rightarrow> CellType list list \<Rightarrow> int Position list option" where
  "findPathAStar start goal m =
     searchLoop m goal
       \<lparr> openSet = [start],
         cameFrom = Map.empty,
         gScore = [start \<mapsto> 0],
         fScore = [start \<mapsto> manhattanDistance start goal] \<rparr>"

section \<open>AI analysis and game reset (engine/GameEngine.ts)\<close>

definition updateAIAnalysis :: "GameEngine \<Rightarrow> GameEngine" where
  "updateAIAnalysis eng =
     (if frameCount eng mod 10 = 0
      then let gs = gameState eng
           in eng\<lparr>gameState := gs\<lparr>
                dangerMap := generateDangerHeatmap (ghosts gs) (maze gs),
                aiLearningLevel := learningLevel (aiEngine eng),
                gs_playerPatterns := playerPatterns (aiEngine eng)\<rparr>\<rparr>
      else eng)"

text \<open>
  One operation of a game session, as far as the learning level goes. The field
  \<open>learningLevel\<close> of the AI engine is assigned in \<open>updateLearningLevel\<close> only, which
  \<open>recordPlayerMovement\<close> calls and \<open>updatePacMan\<close> is the one caller of; the field
  \<open>aiLearningLevel\<close> of the game state is assigned in \<open>initializeGameState\<close> and in
  \<open>updateAIAnalysis\<close> only. Every other method of the engine (and every timer callback)
  is a step of the last kind.
\<close>

inductive sessionStep :: "GameEngine \<Rightarrow> GameEngine \<Rightarrow> bool" where
  stepPacMan: "sessionStep eng (updatePacMan inputDirection eng)"
| stepAnalysis: "sessionStep eng (updateAIAnalysis eng)"
| stepRestart: "sessionStep eng (restartGame storedHighScore eng)"
| stepOther: "aiEngine eng' = aiEngine eng \<Longrightarrow>
              aiLearningLevel (gameState eng') = aiLearningLevel (gameState eng) \<Longrightarrow>
              sessionStep eng eng'"

text \<open>The states a session reaches from a freshly constructed engine.\<close>

inductive inSession :: "GameEngine \<Rightarrow> bool" where
  sessionStart: "inSession (newGameEngine storedHighScore)"
| sessionNext: "inSession eng \<Longrightarrow> sessionStep eng eng' \<Longrightarrow> inSession eng'"

section \<open>Specification vocabulary\<close>

text \<open>
  The danger field in the words of the specification: the ghosts that count, what one of
  them contributes to a cell, the sum over those within the radius, and the clamp.
\<close>

definition threatening :: "Ghost \<Rightarrow> bool" where
  "threatening g = (state g \<noteq> FRIGHTENED \<and> state g \<noteq> EATEN)"

definition contribution :: "real Position \<Rightarrow> Ghost \<Rightarrow> real" where
  "contribution pos g = (DANGER_RADIUS - manhattanDistance pos (position g)) / DANGER_RADIUS"

definition dangerSum :: "real Position \<Rightarrow> Ghost list \<Rightarrow> real" where
  "dangerSum pos gs =
     sum_list (map (contribution pos)
       (filter (\<lambda>g. threatening g \<and> manhattanDistance pos (position g) \<le> DANGER_RADIUS) gs))"

definition clamp01 :: "real \<Rightarrow> real" where
  "clamp01 v = max 0 (min v 1)"

text \<open>
  A path whose consecutive cells are 4-adjacent and whose cells after the first are
  in bounds and not walls.
\<close>

fun validPath :: "CellType list list \<Rightarrow> int Position list \<Rightarrow> bool" where
  "validPath m [] = True"
| "validPath m [p] = True"
| "validPath m (p # q # rest) =
     (manhattanDistance p q = 1 \<and> isValidPosition q m \<and> validPath m (q # rest))"

text \<open>
  The invariant of the search loop: a recorded predecessor is adjacent to its cell, the
  cell is valid, and every predecessor and every open cell is the start or has a
  predecessor itself.
\<close>

definition searchInvariant :: "int Position \<Rightarrow> CellType list list \<Rightarrow> AStar \<Rightarrow> bool" where
  "searchInvariant start m st =
     ((\<forall>k p. cameFrom st k = Some p \<longrightarrow>
          isValidPosition k m \<and> manhattanDistance p k = 1 \<and> (p = start \<or> p \<in> dom (cameFrom st)))
      \<and> (\<forall>p \<in> set (openSet st). p = start \<or> p \<in> dom (cameFrom st)))"


section \<open>Example states\<close>

text \<open>A corridor of three open cells.\<close>

definition corridor :: "CellType list list" where
  "corridor = [[EMPTY, EMPTY, EMPTY]]"


text \<open>Blinky placed at a pixel position, otherwise as created.\<close>

definition blinkyAt :: "real Position \<Rightarrow> Ghost" where
  "blinkyAt pos = (createGhost 0 BLINKY)\<lparr>position := pos\<rparr>"


text \<open>Blinky in scatter mode, in a new game at frame 601, in the first scatter phase.\<close>

definition scatterBlinky :: Ghost where
  "scatterBlinky = (createGhost 0 BLINKY)\<lparr>state := SCATTER\<rparr>"

definition engineAtFrame601 :: GameEngine where
  "engineAtFrame601 = (newGameEngine 0)\<lparr>frameCount := 601\<rparr>"

text \<open>
  Pac-Man in the tunnel row, in the last column \<open>(18, 9)\<close>, ten pixels right of the
  cell's origin and moving right at his speed of two pixels a frame.
\<close>

definition pacmanAtRightEdge :: PacMan where
  "pacmanAtRightEdge =
     createPacMan\<lparr>position := (442, 216), velocity := (2, 0), direction := RIGHT, nextDirection := RIGHT\<rparr>"

definition engineAtRightEdge :: GameEngine where
  "engineAtRightEdge =
     (newGameEngine 0)\<lparr>gameState := (gameState (newGameEngine 0))\<lparr>pacman := pacmanAtRightEdge\<rparr>\<rparr>"

text \<open>A new game in which two chasing ghosts stand on Pac-Man's cell \<open>(9, 15)\<close>.\<close>

definition crowdedEngine :: GameEngine where
  "crowdedEngine =
     (newGameEngine 0)\<lparr>gameState := (gameState (newGameEngine 0))\<lparr>
        ghosts := [blinkyAt (216, 360), (createGhost 1 PINKY)\<lparr>position := (216, 360), state := CHASE\<rparr>]\<rparr>\<rparr>"





section \<open>Pattern learner: the window and the learning level\<close>

lemma recordPlayerMovement_unfold:
  "recordPlayerMovement d e =
     updateLearningLevel (updatePatternWeights (e\<lparr>playerPatterns := tl (playerPatterns e @ [d])\<rparr>))"
  by (simp add: recordPlayerMovement_def Let_def PATTERN_THRESHOLD_def)

lemma recordPlayerMovement_patterns:
  "playerPatterns (recordPlayerMovement d e) = tl (playerPatterns e @ [d])"
  by (simp add: recordPlayerMovement_unfold updateLearningLevel_def updatePatternWeights_def
      Let_def split: jsnum.splits)

lemma updatePatternWeights_empty:
  "playerPatterns e = [] \<Longrightarrow> patternWeights (updatePatternWeights e) = (\<lambda>_. NaN)"
  by (simp add: updatePatternWeights_def)

lemma updateLearningLevel_NaN:
  "patternWeights e = (\<lambda>_. NaN) \<Longrightarrow> updateLearningLevel e = e"
  by (simp add: updateLearningLevel_def weightKeys_def Math_max_def)

lemma recordPlayerMovement_empty:
  "playerPatterns e = [] \<Longrightarrow> recordPlayerMovement d e = e\<lparr>patternWeights := (\<lambda>_. NaN)\<rparr>"
  by (simp add: recordPlayerMovement_unfold updateLearningLevel_NaN updatePatternWeights_empty
      updatePatternWeights_def)


text \<open>
  C7. The window is meant to hold the last moves up to a bound of 20. The code compares
  the window's length with \<open>AI_CONFIG.PATTERN_THRESHOLD\<close>, which is 0.6, so the move
  just pushed is shifted out again: after one recorded move the window of a new engine is
  empty, where the claim has it hold that move.
\<close>

theorem C7_window_empty_after_first_move:
  "playerPatterns (recordPlayerMovement UP newAIEngine) = []"
  by (simp add: recordPlayerMovement_patterns newAIEngine_def)












section \<open>The learning level over a game session\<close>



text \<open>
  In a session that starts from a new engine the window is empty and both copies of the
  learning level are 0: the constructor sets them so, \<open>recordPlayerMovement\<close> on an empty
  window changes the weights only, \<open>updateAIAnalysis\<close> copies the engine's level, and
  \<open>restartGame\<close> sets the game state's copy to 0.
\<close>

lemma inSession_level_zero:
  "inSession eng \<Longrightarrow>
   playerPatterns (aiEngine eng) = [] \<and> learningLevel (aiEngine eng) = 0 \<and>
   aiLearningLevel (gameState eng) = 0"
proof (induction rule: inSession.induct)
  case (sessionStart hs)
  then show ?case by (simp add: newGameEngine_def newAIEngine_def initializeGameState_def)
next
  case (sessionNext eng eng')
  from sessionNext.hyps(2) sessionNext.IH show ?case
  proof (cases rule: sessionStep.cases)
    case (stepPacMan inputDirection)
    with sessionNext.IH show ?thesis
      by (simp add: updatePacMan_def Let_def recordPlayerMovement_empty)
  next
    case stepAnalysis
    with sessionNext.IH show ?thesis by (simp add: updateAIAnalysis_def Let_def)
  next
    case (stepRestart hs)
    with sessionNext.IH show ?thesis by (simp add: restartGame_def initializeGameState_def)
  next
    case stepOther
    with sessionNext.IH show ?thesis by simp
  qed
qed













section \<open>Danger field\<close>

lemma addDanger_foldl: "foldl (addDanger pos) t gs = t + dangerSum pos gs"
proof (induction gs arbitrary: t)
  case Nil
  then show ?case by (simp add: dangerSum_def)
next
  case (Cons g gs)
  then show ?case
    by (simp add: dangerSum_def addDanger_def threatening_def contribution_def Let_def)
qed

lemma dangerSum_nonneg: "0 \<le> dangerSum pos gs"
  unfolding dangerSum_def
  by (rule sum_list_nonneg) (auto simp: contribution_def DANGER_RADIUS_def)

lemma calculateDangerLevel_eq: "calculateDangerLevel pos gs = clamp01 (dangerSum pos gs)"
  using dangerSum_nonneg[of pos gs]
  by (simp add: calculateDangerLevel_def addDanger_foldl clamp01_def)

lemma dangerSum_far:
  assumes "\<forall>g\<in>set gs. threatening g \<longrightarrow> DANGER_RADIUS < manhattanDistance pos (position g)"
  shows "dangerSum pos gs = 0"
proof -
  from assms
  have "filter (\<lambda>g. threatening g \<and> manhattanDistance pos (position g) \<le> DANGER_RADIUS) gs = []"
    by (auto simp: filter_empty_conv)
  then show ?thesis by (simp add: dangerSum_def)
qed

lemma heatmap_rows:
  "m \<noteq> [] \<Longrightarrow> generateDangerHeatmap gs m =
     map (\<lambda>y. map (\<lambda>x. if cellAt m y x = Some WALL then - 1
                         else calculateDangerLevel (real x, real y) gs)
                   [0 ..< length (m ! 0)])
         [0 ..< length m]"
  by (cases m) (simp_all add: generateDangerHeatmap_def del: upt_Suc)

lemma heatmap_nth:
  assumes "y < length m" "x < length (m ! 0)"
  shows "generateDangerHeatmap gs m ! y ! x =
          (if cellAt m y x = Some WALL then - 1 else calculateDangerLevel (real x, real y) gs)"
proof -
  from assms have "m \<noteq> []" by auto
  from heatmap_rows[OF this] assms show ?thesis by simp
qed

lemma addDanger_coincident:
  "threatening g \<Longrightarrow> position g = pos \<Longrightarrow> addDanger pos t g = t + 1"
  by (simp add: addDanger_def threatening_def manhattanDistance_def DANGER_RADIUS_def Let_def)

text \<open>
  What the code computes, on the positions as they are handed in: a wall cell holds the
  sentinel \<open>-1\<close>; any other cell holds the sum, over the ghosts neither frightened nor
  eaten whose position is within Manhattan distance \<open>R = DANGER_RADIUS\<close> of the cell's
  index, of \<open>(R - d) / R\<close>, clamped to \<open>[0, 1]\<close>.
\<close>

lemma heatmap_cell_value:
  assumes "y < length m" and "x < length (m ! 0)"
  shows "generateDangerHeatmap gs m ! y ! x =
           (if cellAt m y x = Some WALL then - 1 else clamp01 (dangerSum (real x, real y) gs))"
  using assms by (simp add: heatmap_nth calculateDangerLevel_eq)

lemma createGhosts_list:
  "createGhosts = [createGhost 0 BLINKY, createGhost 1 PINKY, createGhost 2 INKY, createGhost 3 CLYDE]"
  by (simp add: createGhosts_def GHOST_CONFIG_keys_def eval_nat_numeral)

lemma createGhost_position:
  "position (createGhost i BLINKY) = (216, 216)" "position (createGhost i PINKY) = (216, 240)"
  "position (createGhost i INKY) = (192, 240)" "position (createGhost i CLYDE) = (240, 240)"
  by (simp_all add: createGhost_def CELL_SIZE_def)

lemma grid_216_216: "toGrid (216, 216) = (9, 9)"
  by (simp add: toGrid_def Math_round_def CELL_SIZE_def)

lemma layout_size: "length MAZE_LAYOUT = 21" "length (MAZE_LAYOUT ! 0) = 19"
  by (simp_all add: MAZE_LAYOUT_def)

lemma layout_cell_9_9: "cellAt MAZE_LAYOUT 9 9 = Some GHOST_HOUSE"
  by code_simp

lemma new_game_fields:
  "ghosts (gameState (newGameEngine h)) = createGhosts"
  "maze (gameState (newGameEngine h)) = MAZE_LAYOUT"
  by (simp_all add: newGameEngine_def initializeGameState_def)

lemma new_game_danger_9_9: "dangerSum (9, 9) createGhosts = 0"
  by (rule dangerSum_far)
     (simp add: createGhosts_list createGhost_position manhattanDistance_def DANGER_RADIUS_def)

text \<open>
  C4. The distance is taken between the grid index of the cell and \<open>ghost.position\<close>,
  which the game keeps in pixels. In a new game Blinky, chasing, stands in cell
  \<open>(9, 9)\<close>, at pixel \<open>(216, 216)\<close>; its distance to the index \<open>(9, 9)\<close> comes out as
  414, beyond the radius 3, as do the distances of the other three ghosts, which stand in
  the cells next to it. The heatmap of the new game holds 0 on Blinky's own cell, where
  the claim has the adversary on the cell contribute 1 (and its neighbours the rest, for a
  clamped value of 1).
\<close>

theorem C4_ghost_on_cell_contributes_nothing:
  "ghosts (gameState (newGameEngine 0)) ! 0 = createGhost 0 BLINKY
   \<and> state (createGhost 0 BLINKY) = CHASE
   \<and> position (createGhost 0 BLINKY) = (216, 216)
   \<and> toGrid (position (createGhost 0 BLINKY)) = (9, 9)
   \<and> cellAt (maze (gameState (newGameEngine 0))) 9 9 = Some GHOST_HOUSE
   \<and> manhattanDistance (9, 9) (position (createGhost 0 BLINKY)) = 414
   \<and> generateDangerHeatmap (ghosts (gameState (newGameEngine 0)))
        (maze (gameState (newGameEngine 0))) ! 9 ! 9 = 0"
proof -
  have y: "9 < length MAZE_LAYOUT" and x: "9 < length (MAZE_LAYOUT ! 0)"
    by (simp_all add: layout_size)
  have h: "generateDangerHeatmap createGhosts MAZE_LAYOUT ! 9 ! 9 = 0"
    using heatmap_cell_value[OF y x, of createGhosts] new_game_danger_9_9
    by (simp add: layout_cell_9_9 clamp01_def)
  have g: "ghosts (gameState (newGameEngine 0)) ! 0 = createGhost 0 BLINKY"
    by (simp add: new_game_fields createGhosts_list)
  have s: "state (createGhost 0 BLINKY) = CHASE" by (simp add: createGhost_def)
  have p: "position (createGhost 0 BLINKY) = (216, 216)" by (rule createGhost_position)
  have t: "toGrid (position (createGhost 0 BLINKY)) = (9, 9)"
    by (simp add: createGhost_position grid_216_216)
  have c: "cellAt (maze (gameState (newGameEngine 0))) 9 9 = Some GHOST_HOUSE"
    by (simp add: new_game_fields layout_cell_9_9)
  have d: "manhattanDistance (9, 9) (position (createGhost 0 BLINKY)) = 414"
    by (simp add: createGhost_position manhattanDistance_def)
  have h': "generateDangerHeatmap (ghosts (gameState (newGameEngine 0)))
        (maze (gameState (newGameEngine 0))) ! 9 ! 9 = 0"
    by (simp only: new_game_fields h)
  from g s p t c d h' show ?thesis by (intro conjI)
qed

section \<open>Ghost captures\<close>

lemma activatePowerPellet_count: "ghostEatenCount (gameState (activatePowerPellet eng)) = 0"
  by (simp add: activatePowerPellet_def Let_def)

lemma collideGhost_capture:
  assumes "state (ghosts (gameState eng) ! i) = FRIGHTENED"
    and "toGrid (position (ghosts (gameState eng) ! i)) = (gridX, gridY)"
  shows "score (gameState (collideGhost gridX gridY eng i)) =
           score (gameState eng) + POINTS_GHOST_BASE * 2 ^ ghostEatenCount (gameState eng)"
    and "ghostEatenCount (gameState (collideGhost gridX gridY eng i)) = ghostEatenCount (gameState eng) + 1"
    and "ghosts (gameState (collideGhost gridX gridY eng i)) =
           (ghosts (gameState eng))[i := (ghosts (gameState eng) ! i)\<lparr>state := EATEN\<rparr>]"
  using assms by (simp_all add: collideGhost_def toGrid_def Let_def)

lemma collideGhost_no_capture:
  assumes "\<not> (state (ghosts (gameState eng) ! i) = FRIGHTENED \<and>
              toGrid (position (ghosts (gameState eng) ! i)) = (gridX, gridY))"
  shows "ghostEatenCount (gameState (collideGhost gridX gridY eng i)) = ghostEatenCount (gameState eng)"
    and "score (gameState (collideGhost gridX gridY eng i)) = score (gameState eng)"
  using assms by (auto simp: collideGhost_def toGrid_def Let_def)

text \<open>
  C3. \<open>activatePowerPellet\<close> sets the capture counter to 0. In the collision check, a
  frightened ghost on Pac-Man's cell \<open>(gridX, gridY)\<close> is captured: the score grows by
  \<open>POINTS_GHOST_BASE * 2 ^ ghostEatenCount\<close> and the counter by one, so the captures of
  one activation award the base, twice, four and eight times the base. A ghost that is not
  captured leaves counter and score as they are.
\<close>

theorem C3_ghost_capture_score:
  assumes "i < length (ghosts (gameState eng))"
  shows "ghostEatenCount (gameState (activatePowerPellet eng)) = 0
   \<and> (state (ghosts (gameState eng) ! i) = FRIGHTENED \<and>
       toGrid (position (ghosts (gameState eng) ! i)) = (gridX, gridY) \<longrightarrow>
         score (gameState (collideGhost gridX gridY eng i)) =
           score (gameState eng) + POINTS_GHOST_BASE * 2 ^ ghostEatenCount (gameState eng) \<and>
         ghostEatenCount (gameState (collideGhost gridX gridY eng i)) =
           ghostEatenCount (gameState eng) + 1 \<and>
         state (ghosts (gameState (collideGhost gridX gridY eng i)) ! i) = EATEN)
   \<and> (\<not> (state (ghosts (gameState eng) ! i) = FRIGHTENED \<and>
          toGrid (position (ghosts (gameState eng) ! i)) = (gridX, gridY)) \<longrightarrow>
         ghostEatenCount (gameState (collideGhost gridX gridY eng i)) =
           ghostEatenCount (gameState eng) \<and>
         score (gameState (collideGhost gridX gridY eng i)) = score (gameState eng))"
proof (intro conjI impI)
  show "ghostEatenCount (gameState (activatePowerPellet eng)) = 0"
    by (rule activatePowerPellet_count)
next
  assume a: "state (ghosts (gameState eng) ! i) = FRIGHTENED \<and>
       toGrid (position (ghosts (gameState eng) ! i)) = (gridX, gridY)"
  then have f: "state (ghosts (gameState eng) ! i) = FRIGHTENED"
    and g: "toGrid (position (ghosts (gameState eng) ! i)) = (gridX, gridY)" by blast+
  show "score (gameState (collideGhost gridX gridY eng i)) =
           score (gameState eng) + POINTS_GHOST_BASE * 2 ^ ghostEatenCount (gameState eng)"
    by (rule collideGhost_capture(1)[OF f g])
  show "ghostEatenCount (gameState (collideGhost gridX gridY eng i)) =
           ghostEatenCount (gameState eng) + 1"
    by (rule collideGhost_capture(2)[OF f g])
  show "state (ghosts (gameState (collideGhost gridX gridY eng i)) ! i) = EATEN"
    using assms by (simp add: collideGhost_capture(3)[OF f g])
next
  assume a: "\<not> (state (ghosts (gameState eng) ! i) = FRIGHTENED \<and>
          toGrid (position (ghosts (gameState eng) ! i)) = (gridX, gridY))"
  show "ghostEatenCount (gameState (collideGhost gridX gridY eng i)) = ghostEatenCount (gameState eng)"
    by (rule collideGhost_no_capture(1)[OF a])
  show "score (gameState (collideGhost gridX gridY eng i)) = score (gameState eng)"
    by (rule collideGhost_no_capture(2)[OF a])
qed

lemma crowded_activated:
  "ghosts (gameState (activatePowerPellet crowdedEngine)) =
     [(blinkyAt (216, 360))\<lparr>state := FRIGHTENED, frightenedTimer := POWER_PELLET_DURATION,
         isFlashing := False, direction := DOWN\<rparr>,
      (createGhost 1 PINKY)\<lparr>position := (216, 360), state := FRIGHTENED,
         frightenedTimer := POWER_PELLET_DURATION, isFlashing := False, direction := DOWN\<rparr>]"
  "score (gameState (activatePowerPellet crowdedEngine)) = 0"
  by (simp_all add: activatePowerPellet_def crowdedEngine_def Let_def blinkyAt_def createGhost_def
      newGameEngine_def initializeGameState_def)

lemma grid_216_360: "toGrid (216, 360) = (9, 15)"
  by (simp add: toGrid_def Math_round_def CELL_SIZE_def)

text \<open>
  A power pellet is activated with two chasing ghosts on Pac-Man's cell \<open>(9, 15)\<close>:
  the counter is 0, the first capture brings the score from 0 to 200, the second to 600.
\<close>

theorem C3_ghost_capture_score_witness:
  "0 < length (ghosts (gameState (activatePowerPellet crowdedEngine)))
   \<and> ghostEatenCount (gameState (activatePowerPellet crowdedEngine)) = 0
   \<and> state (ghosts (gameState (activatePowerPellet crowdedEngine)) ! 0) = FRIGHTENED
   \<and> score (gameState (collideGhost 9 15 (activatePowerPellet crowdedEngine) 0)) = 200
   \<and> ghostEatenCount (gameState (collideGhost 9 15 (activatePowerPellet crowdedEngine) 0)) = 1
   \<and> state (ghosts (gameState (collideGhost 9 15 (activatePowerPellet crowdedEngine) 0)) ! 1) = FRIGHTENED
   \<and> score (gameState (collideGhost 9 15 (collideGhost 9 15 (activatePowerPellet crowdedEngine) 0) 1)) = 600
   \<and> ghostEatenCount (gameState (collideGhost 9 15 (collideGhost 9 15 (activatePowerPellet crowdedEngine) 0) 1)) = 2
   \<and> ghostEatenCount (gameState (collideGhost 0 0 (activatePowerPellet crowdedEngine) 0)) = 0"
proof -
  let ?e1 = "activatePowerPellet crowdedEngine"
  let ?e2 = "collideGhost 9 15 ?e1 0"
  have len1: "0 < length (ghosts (gameState ?e1))" by (simp add: crowded_activated)
  have len0: "0 < length (ghosts (gameState crowdedEngine))"
    by (simp add: crowdedEngine_def)
  have c1: "ghostEatenCount (gameState ?e1) = 0"
    by (rule C3_ghost_capture_score[OF len0, THEN conjunct1])
  have h1: "state (ghosts (gameState ?e1) ! 0) = FRIGHTENED \<and>
            toGrid (position (ghosts (gameState ?e1) ! 0)) = (9, 15)"
    by (simp add: crowded_activated blinkyAt_def grid_216_360)
  note r1 = C3_ghost_capture_score[OF len1, THEN conjunct2, THEN conjunct1, rule_format, OF h1]
  from r1 have s2: "score (gameState ?e2) = 200"
    by (simp add: crowded_activated activatePowerPellet_count POINTS_GHOST_BASE_def)
  from r1 have c2: "ghostEatenCount (gameState ?e2) = 1"
    by (simp add: activatePowerPellet_count)
  have g2: "ghosts (gameState ?e2) = (ghosts (gameState ?e1))[0 := (ghosts (gameState ?e1) ! 0)\<lparr>state := EATEN\<rparr>]"
    using h1 by (intro collideGhost_capture(3)) blast+
  have len2: "1 < length (ghosts (gameState ?e2))" by (simp add: g2 crowded_activated)
  have h2: "state (ghosts (gameState ?e2) ! 1) = FRIGHTENED \<and>
            toGrid (position (ghosts (gameState ?e2) ! 1)) = (9, 15)"
    by (simp add: g2 crowded_activated grid_216_360)
  note r2 = C3_ghost_capture_score[OF len2, THEN conjunct2, THEN conjunct1, rule_format, OF h2]
  from r2 have s3: "score (gameState (collideGhost 9 15 ?e2 1)) = 600"
    by (simp add: s2 c2 POINTS_GHOST_BASE_def)
  from r2 have c3: "ghostEatenCount (gameState (collideGhost 9 15 ?e2 1)) = 2"
    by (simp add: c2)
  have h3: "\<not> (state (ghosts (gameState ?e1) ! 0) = FRIGHTENED \<and>
            toGrid (position (ghosts (gameState ?e1) ! 0)) = (0, 0))"
    by (simp add: crowded_activated blinkyAt_def grid_216_360)
  from C3_ghost_capture_score[OF len1, THEN conjunct2, THEN conjunct2, rule_format, OF h3]
  have c4: "ghostEatenCount (gameState (collideGhost 0 0 ?e1 0)) = 0"
    by (simp add: activatePowerPellet_count)
  from len1 c1 h1 s2 c2 h2 s3 c3 c4 show ?thesis by (intro conjI) blast+
qed

section \<open>Targets in scatter mode\<close>

lemma getGhostTarget_state: "getGhostTarget (ghost\<lparr>state := s\<rparr>) pac gs = getGhostTarget ghost pac gs"
  by (cases "ghostId ghost") (simp_all add: getGhostTarget_def)

lemma updateGhostState_chase_scatter:
  assumes "state ghost = CHASE \<or> state ghost = SCATTER"
  shows "updateGhostState eng ghost =
           ghost\<lparr>targetPosition :=
                    adaptGhostBehavior (aiEngine eng) ghost (pacman (gameState eng)) (ghosts (gameState eng)),
                  state := (if (frameCount eng div 600) mod 2 = 0 then CHASE else SCATTER)\<rparr>"
proof -
  from assms have "state ghost \<noteq> IN_HOUSE" "state ghost \<noteq> FRIGHTENED" "state ghost \<noteq> EATEN"
    by auto
  then show ?thesis by (simp add: updateGhostState_def Let_def)
qed

lemma adaptGhostBehavior_unlearned:
  "learningLevel e < 20 \<Longrightarrow> adaptGhostBehavior e ghost pac gs = getGhostTarget ghost pac gs"
  by (simp add: adaptGhostBehavior_def Let_def)

text \<open>
  C6, as the code has it. For a ghost in scatter mode (as for one in chase mode), with
  the learning level below 20, \<open>updateGhostState\<close> sets the pursuit target to the
  role-specific target of \<open>getGhostTarget\<close>, the same as in chase mode: for Blinky the
  player's position. The scatter corner is the target only where the role's own rule
  says so (Clyde within 8 of the player). The mode the ghost is left in depends on the
  frame count alone.
\<close>

theorem C6_scatter_target_is_role_target:
  assumes "state ghost = SCATTER" and "learningLevel (aiEngine eng) < 20"
  shows "targetPosition (updateGhostState eng ghost) =
           getGhostTarget (ghost\<lparr>state := CHASE\<rparr>) (pacman (gameState eng)) (ghosts (gameState eng))
         \<and> targetPosition (updateGhostState eng ghost) =
             targetPosition (updateGhostState eng (ghost\<lparr>state := CHASE\<rparr>))
         \<and> (ghostId ghost = BLINKY \<longrightarrow>
              targetPosition (updateGhostState eng ghost) = position (pacman (gameState eng)))
         \<and> state (updateGhostState eng ghost) =
             (if (frameCount eng div 600) mod 2 = 0 then CHASE else SCATTER)"
proof -
  have t: "targetPosition (updateGhostState eng ghost) =
             getGhostTarget ghost (pacman (gameState eng)) (ghosts (gameState eng))"
    using assms by (simp add: updateGhostState_chase_scatter adaptGhostBehavior_unlearned)
  have t': "targetPosition (updateGhostState eng (ghost\<lparr>state := CHASE\<rparr>)) =
             getGhostTarget ghost (pacman (gameState eng)) (ghosts (gameState eng))"
    using assms(2)
    by (simp add: updateGhostState_chase_scatter adaptGhostBehavior_unlearned getGhostTarget_state)
  have b: "ghostId ghost = BLINKY \<Longrightarrow>
           getGhostTarget ghost (pacman (gameState eng)) (ghosts (gameState eng)) =
           position (pacman (gameState eng))"
    by (simp add: getGhostTarget_def)
  have s: "state (updateGhostState eng ghost) =
             (if (frameCount eng div 600) mod 2 = 0 then CHASE else SCATTER)"
    using assms(1) by (simp add: updateGhostState_chase_scatter)
  from t t' b s show ?thesis by (simp add: getGhostTarget_state)
qed

lemma scatterBlinky_fields:
  "state scatterBlinky = SCATTER" "ghostId scatterBlinky = BLINKY"
  "scatterTarget scatterBlinky = (408, 0)"
  by (simp_all add: scatterBlinky_def createGhost_def CELL_SIZE_def)

lemma engineAtFrame601_fields:
  "learningLevel (aiEngine engineAtFrame601) = 0"
  "frameCount engineAtFrame601 = 601"
  "position (pacman (gameState engineAtFrame601)) = (216, 360)"
  by (simp_all add: engineAtFrame601_def newGameEngine_def newAIEngine_def initializeGameState_def
      createPacMan_def PACMAN_START_POSITION_def CELL_SIZE_def)

text \<open>
  Blinky in scatter mode at frame 601 of a new game: the theorem gives the player's
  position \<open>(216, 360)\<close> as its target and leaves it in scatter mode.
\<close>

theorem C6_scatter_target_is_role_target_witness:
  "state scatterBlinky = SCATTER
   \<and> learningLevel (aiEngine engineAtFrame601) < 20
   \<and> targetPosition (updateGhostState engineAtFrame601 scatterBlinky) = (216, 360)
   \<and> state (updateGhostState engineAtFrame601 scatterBlinky) = SCATTER"
proof -
  have l: "learningLevel (aiEngine engineAtFrame601) < 20" by (simp add: engineAtFrame601_fields)
  note t = C6_scatter_target_is_role_target[OF scatterBlinky_fields(1) l]
  from t[THEN conjunct2, THEN conjunct2, THEN conjunct1, rule_format, OF scatterBlinky_fields(2)]
  have a: "targetPosition (updateGhostState engineAtFrame601 scatterBlinky) = (216, 360)"
    by (simp add: engineAtFrame601_fields)
  from t[THEN conjunct2, THEN conjunct2, THEN conjunct2]
  have b: "state (updateGhostState engineAtFrame601 scatterBlinky) = SCATTER"
    by (simp add: engineAtFrame601_fields)
  from scatterBlinky_fields(1) l a b show ?thesis by (intro conjI)
qed

text \<open>
  Against C6 as stated: Blinky is in scatter mode before and after the tick, and its
  target is the player's position \<open>(216, 360)\<close>, not its scatter corner \<open>(408, 0)\<close>.
\<close>

theorem C6_counterexample:
  "state scatterBlinky = SCATTER
   \<and> state (updateGhostState engineAtFrame601 scatterBlinky) = SCATTER
   \<and> targetPosition (updateGhostState engineAtFrame601 scatterBlinky) = (216, 360)
   \<and> scatterTarget (updateGhostState engineAtFrame601 scatterBlinky) = (408, 0)
   \<and> targetPosition (updateGhostState engineAtFrame601 scatterBlinky)
       \<noteq> scatterTarget (updateGhostState engineAtFrame601 scatterBlinky)"
proof -
  have u: "updateGhostState engineAtFrame601 scatterBlinky =
             scatterBlinky\<lparr>targetPosition := (216, 360), state := SCATTER\<rparr>"
    by (simp add: updateGhostState_chase_scatter scatterBlinky_fields adaptGhostBehavior_unlearned
        engineAtFrame601_fields getGhostTarget_def)
  show ?thesis by (simp add: u scatterBlinky_fields)
qed

section \<open>Ghost movement and the no-reversal rule\<close>















lemma grid_192_24: "toGrid (192, 24) = (8, 1)"
  by (simp add: toGrid_def Math_round_def CELL_SIZE_def)








section \<open>Tunnel wraparound\<close>

lemma wrapTunnel_left: "nextX < 0 \<Longrightarrow> wrapTunnel nextX = 432"
  by (simp add: wrapTunnel_def MAZE_WIDTH_def CELL_SIZE_def)

lemma wrapTunnel_444: "wrapTunnel 444 = 444"
  by (simp add: wrapTunnel_def MAZE_WIDTH_def CELL_SIZE_def)

lemma grid_444_216: "toGrid (444, 216) = (19, 9)"
  by (simp add: toGrid_def Math_round_def CELL_SIZE_def)

lemma isValidMove_column_19: "\<not> isValidMove m (19, 9)"
  by (simp add: isValidMove_def MAZE_WIDTH_def MAZE_HEIGHT_def)

lemma movePacMan_right_edge:
  "position pac = (442, 216) \<Longrightarrow> velocity pac = (2, 0) \<Longrightarrow> direction pac = RIGHT \<Longrightarrow>
   movePacMan m pac = pac\<lparr>direction := NONE, velocity := (0, 0)\<rparr>"
  by (simp add: movePacMan_def Let_def wrapTunnel_444 grid_444_216 isValidMove_column_19)

lemma tryChangeDirection_same:
  "nextDirection pac = direction pac \<Longrightarrow> tryChangeDirection m pac = pac"
  by (simp add: tryChangeDirection_def)

lemma animatePacMan_fields:
  "position (animatePacMan f pac) = position pac"
  "direction (animatePacMan f pac) = direction pac"
  "velocity (animatePacMan f pac) = velocity pac"
  by (simp_all add: animatePacMan_def)

lemma updatePacMan_no_input:
  "pacman (gameState (updatePacMan NONE eng)) =
     animatePacMan (frameCount eng)
       (movePacMan (maze (gameState eng))
          (tryChangeDirection (maze (gameState eng)) (pacman (gameState eng))))"
  by (simp add: updatePacMan_def Let_def)

lemma pacmanAtRightEdge_fields:
  "position pacmanAtRightEdge = (442, 216)" "velocity pacmanAtRightEdge = (2, 0)"
  "direction pacmanAtRightEdge = RIGHT" "nextDirection pacmanAtRightEdge = RIGHT"
  by (simp_all add: pacmanAtRightEdge_def createPacMan_def)

lemma engineAtRightEdge_pacman: "pacman (gameState engineAtRightEdge) = pacmanAtRightEdge"
  by (simp add: engineAtRightEdge_def)

lemma grid_442_216: "toGrid (442, 216) = (18, 9)"
  by (simp add: toGrid_def Math_round_def CELL_SIZE_def)

text \<open>
  From a pixel whose cell is inside the maze, a step of Pac-Man's speed to the right
  never reaches the pixel \<open>MAZE_WIDTH * CELL_SIZE\<close> at which the right-hand test wraps.
\<close>

lemma right_wrap_out_of_reach:
  assumes "fst (toGrid (x, y)) < MAZE_WIDTH" and "0 \<le> x"
  shows "wrapTunnel (x + PACMAN_SPEED) = x + PACMAN_SPEED"
proof -
  from assms(1) have "\<lfloor>x / 24 + 1 / 2\<rfloor> < 19"
    by (simp add: toGrid_def Math_round_def CELL_SIZE_def MAZE_WIDTH_def)
  then have "x / 24 + 1 / 2 < 19" by linarith
  then have "x < 444" by simp
  with assms(2) show ?thesis
    by (simp add: wrapTunnel_def PACMAN_SPEED_def MAZE_WIDTH_def CELL_SIZE_def)
qed

text \<open>
  C9. The wraparound on the right edge is not reached. Pac-Man is in the last column of
  the tunnel row, cell \<open>(18, 9)\<close>, at pixel 442 and moving right. His next pixel 444 is
  not wrapped, since only a pixel of \<open>MAZE_WIDTH * CELL_SIZE = 456\<close> or more is; it rounds
  to column 19, which is \<open>MAZE_WIDTH\<close>; the validity check fails on it and Pac-Man is
  stopped where he was, where the claim has him carried to column 0. (On the left edge a
  negative pixel is wrapped to the last column before the check.)
\<close>

theorem C9_right_edge_not_wrapped:
  "toGrid (position (pacman (gameState engineAtRightEdge))) = (MAZE_WIDTH - 1, 9)
   \<and> wrapTunnel (fst (position (pacman (gameState engineAtRightEdge)))
                   + fst (velocity (pacman (gameState engineAtRightEdge)))) = 444
   \<and> toGrid (444, 216) = (MAZE_WIDTH, 9)
   \<and> position (pacman (gameState (updatePacMan NONE engineAtRightEdge))) = (442, 216)
   \<and> direction (pacman (gameState (updatePacMan NONE engineAtRightEdge))) = NONE
   \<and> velocity (pacman (gameState (updatePacMan NONE engineAtRightEdge))) = (0, 0)"
proof -
  have m: "movePacMan m pacmanAtRightEdge = pacmanAtRightEdge\<lparr>direction := NONE, velocity := (0, 0)\<rparr>" for m
    by (rule movePacMan_right_edge) (simp_all add: pacmanAtRightEdge_fields)
  have u: "pacman (gameState (updatePacMan NONE engineAtRightEdge)) =
             animatePacMan (frameCount engineAtRightEdge)
               (pacmanAtRightEdge\<lparr>direction := NONE, velocity := (0, 0)\<rparr>)"
    by (simp add: updatePacMan_no_input engineAtRightEdge_pacman tryChangeDirection_same
        pacmanAtRightEdge_fields m)
  show ?thesis
    by (simp add: u animatePacMan_fields engineAtRightEdge_pacman pacmanAtRightEdge_fields
        grid_442_216 grid_444_216 wrapTunnel_444 MAZE_WIDTH_def)
qed

section \<open>Pathfinder: when the reconstruction does not end\<close>

text \<open>
  If the predecessor map sends every cell of a set into the set, the reconstruction
  started inside the set never finds a cell without predecessor.
\<close>

lemma reconstructPath_closed_aux:
  assumes "reconstructPath cf k p = Some y"
  shows "\<not> (\<exists>S. k \<in> S \<and> (\<forall>x\<in>S. \<exists>z\<in>S. cf x = Some z))"
proof (rule reconstructPath.raw_induct
    [where P = "\<lambda>cf k p y. \<not> (\<exists>S. k \<in> S \<and> (\<forall>x\<in>S. \<exists>z\<in>S. cf x = Some z))", OF _ assms])
  fix rp and cf' :: "int Position \<rightharpoonup> int Position" and k' p' y'
  assume IH: "\<And>cf k p y. rp cf k p = Some y \<Longrightarrow>
                \<not> (\<exists>S. k \<in> S \<and> (\<forall>x\<in>S. \<exists>z\<in>S. cf x = Some z))"
    and step: "(case cf' k' of None \<Rightarrow> Some p'
                | Some current \<Rightarrow> rp cf' current (current # p')) = Some y'"
  show "\<not> (\<exists>S. k' \<in> S \<and> (\<forall>x\<in>S. \<exists>z\<in>S. cf' x = Some z))"
  proof
    assume "\<exists>S. k' \<in> S \<and> (\<forall>x\<in>S. \<exists>z\<in>S. cf' x = Some z)"
    then obtain S where S: "k' \<in> S" "\<forall>x\<in>S. \<exists>z\<in>S. cf' x = Some z" by blast
    then obtain c where c: "cf' k' = Some c" "c \<in> S" by blast
    with step have "rp cf' c (c # p') = Some y'" by simp
    from IH[OF this] S c show False by blast
  qed
qed

lemma reconstructPath_closed:
  "k \<in> S \<Longrightarrow> \<forall>x\<in>S. \<exists>z\<in>S. cf x = Some z \<Longrightarrow> reconstructPath cf k p = None"
  using reconstructPath_closed_aux[of cf k p] by (cases "reconstructPath cf k p") blast+

text \<open>The search from a cell to itself returns that cell alone.\<close>

lemma findPathAStar_start_is_goal: "findPathAStar start start m = Some [start]"
  apply (simp add: findPathAStar_def)
  apply (subst searchLoop.simps)
  apply (simp add: lowestFScore_def)
  apply (subst reconstructPath.simps)
  apply simp
  done

text \<open>
  C1. In the corridor of three open cells, the goal \<open>(2, 0)\<close> is reachable from the start
  \<open>(0, 0)\<close>, and the call does not return. When \<open>(1, 0)\<close> is expanded, its neighbour
  \<open>(0, 0)\<close> has the score \<open>gScore = 0\<close>, which \<open>gScore.get(neighborKey) || Infinity\<close> reads
  as \<open>Infinity\<close>; the start is given the predecessor \<open>(1, 0)\<close>, whose predecessor is the
  start, and the loop \<open>while (cameFrom.has(currentKey))\<close> of the reconstruction goes round
  these two cells for ever. The claim has the call return \<open>[(0,0), (1,0), (2,0)]\<close>.
\<close>

theorem C1_reachable_goal_no_return:
  "findPathAStar (0, 0) (2, 0) corridor = None"
  apply (simp add: findPathAStar_def corridor_def)
  apply (subst searchLoop.simps)
  apply (simp add: lowestFScore_def splice1_def checkNeighbor_def isValidPosition_def cellAt_def
      manhattanDistance_def Let_def)
  apply (subst searchLoop.simps)
  apply (simp add: lowestFScore_def splice1_def checkNeighbor_def isValidPosition_def cellAt_def
      manhattanDistance_def Let_def)
  apply (subst searchLoop.simps)
  apply (simp add: lowestFScore_def splice1_def checkNeighbor_def isValidPosition_def cellAt_def
      manhattanDistance_def Let_def)
  apply (rule reconstructPath_closed[where S = "{(0, 0), (1, 0), (2, 0)}"])
   apply simp_all
  done

section \<open>Pathfinder: the shape of a returned path\<close>

lemma getNextPosition_adjacent:
  "dir \<noteq> NONE \<Longrightarrow> manhattanDistance (p :: int Position) (getNextPosition p dir) = 1"
  by (cases p; cases dir) (simp_all add: manhattanDistance_def)

lemma checkNeighbor_cases:
  "checkNeighbor m goal current st dir = st \<or>
   (isValidPosition (getNextPosition current dir) m \<and>
    cameFrom (checkNeighbor m goal current st dir) = (cameFrom st)(getNextPosition current dir \<mapsto> current) \<and>
    set (openSet (checkNeighbor m goal current st dir)) \<subseteq> insert (getNextPosition current dir) (set (openSet st)))"
  by (auto simp: checkNeighbor_def Let_def)

lemma checkNeighbor_invariant:
  assumes inv: "searchInvariant start m st"
    and cur: "current = start \<or> current \<in> dom (cameFrom st)"
    and dir: "dir \<noteq> NONE"
  shows "searchInvariant start m (checkNeighbor m goal current st dir)
         \<and> dom (cameFrom st) \<subseteq> dom (cameFrom (checkNeighbor m goal current st dir))"
proof -
  let ?nb = "getNextPosition current dir"
  let ?st' = "checkNeighbor m goal current st dir"
  from checkNeighbor_cases[of m goal current st dir] show ?thesis
  proof
    assume "?st' = st"
    with inv show ?thesis by simp
  next
    assume upd: "isValidPosition ?nb m \<and> cameFrom ?st' = (cameFrom st)(?nb \<mapsto> current) \<and>
                 set (openSet ?st') \<subseteq> insert ?nb (set (openSet st))"
    then have valid: "isValidPosition ?nb m"
      and cf: "cameFrom ?st' = (cameFrom st)(?nb \<mapsto> current)"
      and os: "set (openSet ?st') \<subseteq> insert ?nb (set (openSet st))" by blast+
    have sub: "dom (cameFrom st) \<subseteq> dom (cameFrom ?st')" unfolding cf by auto
    have nb: "?nb \<in> dom (cameFrom ?st')" unfolding cf by simp
    have edges: "isValidPosition k m \<and> manhattanDistance p k = 1 \<and> (p = start \<or> p \<in> dom (cameFrom ?st'))"
      if kp: "cameFrom ?st' k = Some p" for k p
    proof (cases "k = ?nb")
      case True
      with kp cf have "p = current" by simp
      with True valid getNextPosition_adjacent[OF dir, of current] cur sub show ?thesis by auto
    next
      case False
      with kp cf have "cameFrom st k = Some p" by simp
      with inv have "isValidPosition k m \<and> manhattanDistance p k = 1 \<and> (p = start \<or> p \<in> dom (cameFrom st))"
        unfolding searchInvariant_def by blast
      with sub show ?thesis by blast
    qed
    have opens: "p = start \<or> p \<in> dom (cameFrom ?st')" if "p \<in> set (openSet ?st')" for p
    proof (cases "p = ?nb")
      case True
      with nb show ?thesis by simp
    next
      case False
      with that os have "p \<in> set (openSet st)" by blast
      with inv have "p = start \<or> p \<in> dom (cameFrom st)" unfolding searchInvariant_def by blast
      with sub show ?thesis by blast
    qed
    from edges opens sub show ?thesis unfolding searchInvariant_def by blast
  qed
qed

lemma checkNeighbors_invariant:
  assumes "searchInvariant start m st" "current = start \<or> current \<in> dom (cameFrom st)" "NONE \<notin> set dirs"
  shows "searchInvariant start m (foldl (checkNeighbor m goal current) st dirs)"
  using assms
proof (induction dirs arbitrary: st)
  case Nil
  then show ?case by simp
next
  case (Cons d ds)
  from Cons.prems have d: "d \<noteq> NONE" and ds: "NONE \<notin> set ds" by auto
  from checkNeighbor_invariant[OF Cons.prems(1,2) d, of goal]
  have inv: "searchInvariant start m (checkNeighbor m goal current st d)"
    and sub: "dom (cameFrom st) \<subseteq> dom (cameFrom (checkNeighbor m goal current st d))" by blast+
  from sub Cons.prems(2)
  have "current = start \<or> current \<in> dom (cameFrom (checkNeighbor m goal current st d))" by blast
  from Cons.IH[OF inv this ds] show ?case by simp
qed

lemma lowestFScore_fold_mem:
  "set is \<subseteq> {..<length os} \<Longrightarrow> c \<in> set os \<Longrightarrow>
   fst (foldl (\<lambda>(current, currentIndex) i.
              if ext_less (orInfinity (f (os ! i))) (orInfinity (f current))
              then (os ! i, i) else (current, currentIndex)) (c, j) is) \<in> set os"
  by (induction "is" arbitrary: c j) auto

lemma lowestFScore_mem: "os \<noteq> [] \<Longrightarrow> fst (lowestFScore f os) \<in> set os"
  unfolding lowestFScore_def by (rule lowestFScore_fold_mem) auto

lemma set_splice1: "set (splice1 i xs) \<subseteq> set xs"
  unfolding splice1_def by (auto dest: in_set_takeD in_set_dropD)

lemma splice1_invariant:
  "searchInvariant start m st \<Longrightarrow> searchInvariant start m (st\<lparr>openSet := splice1 i (openSet st)\<rparr>)"
  using set_splice1[of i "openSet st"] unfolding searchInvariant_def by auto

lemma reconstructPath_valid:
  assumes "reconstructPath cf k path = Some result"
  shows "(\<forall>k p. cf k = Some p \<longrightarrow> isValidPosition k m \<and> manhattanDistance p k = 1 \<and> (p = start \<or> p \<in> dom cf))
          \<longrightarrow> path \<noteq> [] \<longrightarrow> hd path = k \<longrightarrow> (k = start \<or> k \<in> dom cf) \<longrightarrow> validPath m path
          \<longrightarrow> (result \<noteq> [] \<and> hd result = start \<and> last result = last path \<and> validPath m result)"
proof (rule reconstructPath.raw_induct[where P = "\<lambda>cf k path result.
     (\<forall>k p. cf k = Some p \<longrightarrow> isValidPosition k m \<and> manhattanDistance p k = 1 \<and> (p = start \<or> p \<in> dom cf))
          \<longrightarrow> path \<noteq> [] \<longrightarrow> hd path = k \<longrightarrow> (k = start \<or> k \<in> dom cf) \<longrightarrow> validPath m path
          \<longrightarrow> (result \<noteq> [] \<and> hd result = start \<and> last result = last path \<and> validPath m result)", OF _ assms])
  fix rp and cf :: "int Position \<rightharpoonup> int Position" and k path result
  assume IH: "\<And>cf k path result. rp cf k path = Some result \<Longrightarrow>
     (\<forall>k p. cf k = Some p \<longrightarrow> isValidPosition k m \<and> manhattanDistance p k = 1 \<and> (p = start \<or> p \<in> dom cf))
          \<longrightarrow> path \<noteq> [] \<longrightarrow> hd path = k \<longrightarrow> (k = start \<or> k \<in> dom cf) \<longrightarrow> validPath m path
          \<longrightarrow> (result \<noteq> [] \<and> hd result = start \<and> last result = last path \<and> validPath m result)"
    and step: "(case cf k of None \<Rightarrow> Some path | Some current \<Rightarrow> rp cf current (current # path)) = Some result"
  show "(\<forall>k p. cf k = Some p \<longrightarrow> isValidPosition k m \<and> manhattanDistance p k = 1 \<and> (p = start \<or> p \<in> dom cf))
          \<longrightarrow> path \<noteq> [] \<longrightarrow> hd path = k \<longrightarrow> (k = start \<or> k \<in> dom cf) \<longrightarrow> validPath m path
          \<longrightarrow> (result \<noteq> [] \<and> hd result = start \<and> last result = last path \<and> validPath m result)"
  proof (intro impI)
    assume edges: "\<forall>k p. cf k = Some p \<longrightarrow> isValidPosition k m \<and> manhattanDistance p k = 1 \<and> (p = start \<or> p \<in> dom cf)"
      and ne: "path \<noteq> []" and hd: "hd path = k" and k: "k = start \<or> k \<in> dom cf" and vp: "validPath m path"
    show "result \<noteq> [] \<and> hd result = start \<and> last result = last path \<and> validPath m result"
    proof (cases "cf k")
      case None
      with step have "result = path" by simp
      moreover from None k have "k = start" by auto
      ultimately show ?thesis using ne hd vp by simp
    next
      case (Some c)
      with step have rec: "rp cf c (c # path) = Some result" by simp
      from edges Some have ck: "isValidPosition k m" "manhattanDistance c k = 1" "c = start \<or> c \<in> dom cf"
        by blast+
      from ne hd obtain rest where path: "path = k # rest" by (cases path) auto
      with vp ck have "validPath m (c # path)" by simp
      with IH[OF rec] edges ck(3)
      have "result \<noteq> [] \<and> hd result = start \<and> last result = last (c # path) \<and> validPath m result"
        by simp
      with ne show ?thesis by simp
    qed
  qed
qed

lemma searchLoop_valid:
  assumes "searchLoop m goal st = Some result"
  shows "searchInvariant start m st \<longrightarrow> result \<noteq> [] \<longrightarrow>
         hd result = start \<and> last result = goal \<and> validPath m result"
proof (rule searchLoop.raw_induct[where P = "\<lambda>m goal st result.
         searchInvariant start m st \<longrightarrow> result \<noteq> [] \<longrightarrow>
         hd result = start \<and> last result = goal \<and> validPath m result", OF _ assms])
  fix sl m goal st result
  assume IH: "\<And>m goal st result. sl m goal st = Some result \<Longrightarrow>
         searchInvariant start m st \<longrightarrow> result \<noteq> [] \<longrightarrow>
         hd result = start \<and> last result = goal \<and> validPath m result"
    and step: "(if 0 < length (openSet st)
      then case lowestFScore (fScore st) (openSet st) of
           (current, currentIndex) \<Rightarrow>
             if current = goal
             then reconstructPath (cameFrom st) current [current]
             else sl m goal
                   (foldl (checkNeighbor m goal current)
                     (st\<lparr>openSet := splice1 currentIndex (openSet st)\<rparr>)
                     [UP, DOWN, LEFT, RIGHT])
      else Some []) = Some result"
  show "searchInvariant start m st \<longrightarrow> result \<noteq> [] \<longrightarrow>
         hd result = start \<and> last result = goal \<and> validPath m result"
  proof (intro impI)
    assume inv: "searchInvariant start m st" and ne: "result \<noteq> []"
    from step ne have os: "openSet st \<noteq> []" by (auto split: if_splits)
    obtain current currentIndex where low: "lowestFScore (fScore st) (openSet st) = (current, currentIndex)"
      by (cases "lowestFScore (fScore st) (openSet st)")
    from lowestFScore_mem[OF os, of "fScore st"] low have "current \<in> set (openSet st)" by simp
    with inv have cur: "current = start \<or> current \<in> dom (cameFrom st)"
      unfolding searchInvariant_def by blast
    show "hd result = start \<and> last result = goal \<and> validPath m result"
    proof (cases "current = goal")
      case True
      with step os low have "reconstructPath (cameFrom st) goal [goal] = Some result" by simp
      from reconstructPath_valid[OF this, of m start] inv cur True
      show ?thesis unfolding searchInvariant_def by auto
    next
      case False
      let ?st' = "foldl (checkNeighbor m goal current)
                     (st\<lparr>openSet := splice1 currentIndex (openSet st)\<rparr>) [UP, DOWN, LEFT, RIGHT]"
      from False step os low have rec: "sl m goal ?st' = Some result" by simp
      have "searchInvariant start m ?st'"
        by (rule checkNeighbors_invariant) (use inv cur in \<open>simp_all add: splice1_invariant\<close>)
      with IH[OF rec] ne show ?thesis by blast
    qed
  qed
qed

lemma validPath_nth:
  "validPath m path \<Longrightarrow> Suc i < length path \<Longrightarrow>
   manhattanDistance (path ! i) (path ! Suc i) = 1 \<and> isValidPosition (path ! Suc i) m"
proof (induction m path arbitrary: i rule: validPath.induct)
  case (3 m p q rest)
  then show ?case by (cases i) auto
qed simp_all

text \<open>
  C10. If \<open>findPathAStar\<close> returns a non-empty path, the path begins at the start and ends
  at the goal, every two consecutive positions are at Manhattan distance 1, and every
  position after the first is in bounds and not a wall. (This holds for every start and
  goal, in particular for in-bounds non-wall ones.)
\<close>

theorem C10_returned_path_shape:
  assumes "findPathAStar start goal m = Some path" and "path \<noteq> []"
  shows "hd path = start \<and> last path = goal
         \<and> (\<forall>i. Suc i < length path \<longrightarrow> manhattanDistance (path ! i) (path ! Suc i) = 1)
         \<and> (\<forall>i. 0 < i \<and> i < length path \<longrightarrow> isValidPosition (path ! i) m)"
proof -
  have "searchInvariant start m \<lparr> openSet = [start], cameFrom = Map.empty, gScore = [start \<mapsto> 0],
         fScore = [start \<mapsto> manhattanDistance start goal] \<rparr>"
    unfolding searchInvariant_def by simp
  with searchLoop_valid[OF assms(1)[unfolded findPathAStar_def], of start] assms(2)
  have hl: "hd path = start" "last path = goal" and vp: "validPath m path" by blast+
  have "isValidPosition (path ! i) m" if "0 < i" "i < length path" for i
  proof -
    from that obtain j where "i = Suc j" by (cases i) auto
    with that validPath_nth[OF vp, of j] show ?thesis by simp
  qed
  with hl validPath_nth[OF vp] show ?thesis by blast
qed

text \<open>
  In the corridor the path from \<open>(0, 0)\<close> to its neighbour \<open>(1, 0)\<close> is returned, and the
  theorem gives its ends, the distance of its one step and the validity of \<open>(1, 0)\<close>.
\<close>

theorem C10_returned_path_shape_witness:
  "findPathAStar (0, 0) (1, 0) corridor = Some [(0, 0), (1, 0)]
   \<and> [(0, 0), (1, 0)] \<noteq> ([] :: int Position list)
   \<and> hd [(0, 0), (1, 0)] = ((0, 0) :: int Position)
   \<and> last [(0, 0), (1, 0)] = ((1, 0) :: int Position)
   \<and> manhattanDistance ((0, 0) :: int Position) (1, 0) = 1
   \<and> isValidPosition (1, 0) corridor"
proof -
  have r: "findPathAStar (0, 0) (1, 0) corridor = Some [(0, 0), (1, 0)]" by code_simp
  have ne: "[(0, 0), (1, 0)] \<noteq> ([] :: int Position list)" by simp
  note t = C10_returned_path_shape[OF r ne]
  from t have a: "hd [(0, 0), (1, 0)] = ((0, 0) :: int Position)"
    and b: "last [(0, 0), (1, 0)] = ((1, 0) :: int Position)" by blast+
  from t[THEN conjunct2, THEN conjunct2, THEN conjunct1, rule_format, of 0]
  have c: "manhattanDistance ((0, 0) :: int Position) (1, 0) = 1" by simp
  from t[THEN conjunct2, THEN conjunct2, THEN conjunct2, rule_format, of 1]
  have d: "isValidPosition (1, 0) corridor" by simp
  from r ne a b c d show ?thesis by (intro conjI)
qed

end
